theory Spec2Isabelle
  imports Main "HOL-Library.Word" "HOL-Library.Sublist" "HOL-Library.Multiset"
begin

section \<open>JavaScript strings\<close>

text \<open>
  A JavaScript string is a sequence of UTF-16 code units: \<open>s.length\<close> counts code units,
  and a regular expression without the \<open>u\<close> flag tests code units. A string is therefore a
  list of 16-bit words. \<open>js\<close> writes an ASCII literal of the source as such a list.
\<close>

type_synonym jsstring = "16 word list"

definition js :: "string \<Rightarrow> jsstring" where
  "js s = map of_char s"

text \<open>
  \<open>WhiteSpace\<close> and \<open>LineTerminator\<close> of ECMAScript: what \<open>String.prototype.trim\<close> strips
  and what the class \<open>\s\<close> matches.
\<close>

definition isWhiteSpace :: "16 word \<Rightarrow> bool" where
  "isWhiteSpace c =
     (c \<in> set [0x09, 0x0A, 0x0B, 0x0C, 0x0D, 0x20, 0xA0, 0x1680, 0x2028, 0x2029,
                0x202F, 0x205F, 0x3000, 0xFEFF]
      \<or> (0x2000 \<le> c \<and> c \<le> 0x200A))"

definition trim :: "jsstring \<Rightarrow> jsstring" where
  "trim s = rev (dropWhile isWhiteSpace (rev (dropWhile isWhiteSpace s)))"

text \<open>\<open>s.includes(sub)\<close>: \<open>sub\<close> occurs in \<open>s\<close> at some position.\<close>

fun js_includes :: "jsstring \<Rightarrow> jsstring \<Rightarrow> bool" where
  "js_includes [] sub = (sub = [])"
| "js_includes (x # xs) sub = (prefix sub (x # xs) \<or> js_includes xs sub)"

section \<open>The session gate: \<open>ProtectedRoute\<close>\<close>

text \<open>
  \<open>useAuth()\<close> hands the component the three flags it reads. The component returns one
  element: the loading indicator, \<open><Register/>\<close>, \<open><Login/>\<close> or its children.
\<close>

record auth_context =
  isAuthenticated :: bool
  requiresRegistration :: bool
  isInitialized :: bool

datatype 'c screen = LoadingScreen | RegisterScreen | LoginScreen | Children 'c

definition ProtectedRoute :: "auth_context \<Rightarrow> 'c \<Rightarrow> 'c screen" where
  "ProtectedRoute auth children =
     (if \<not> isInitialized auth then LoadingScreen
      else if requiresRegistration auth then RegisterScreen
      else if \<not> isAuthenticated auth then LoginScreen
      else Children children)"

section \<open>The password policy of \<open>Register\<close>\<close>

record PasswordStrength =
  hasMinLength :: bool
  hasUppercase :: bool
  hasLowercase :: bool
  hasNumber :: bool
  hasSpecialChar :: bool

text \<open>
  \<open>/[...]/.test(pwd)\<close> with a single character class holds when some code unit of \<open>pwd\<close>
  lies in the class. The classes of the source: \<open>[A-Z]\<close>, \<open>[a-z]\<close>, \<open>\d\<close> (the digits
  \<open>0\<close> to \<open>9\<close>) and the punctuation class, whose members are listed as written there
  (\<open>0x22\<close> is the double quote).
\<close>

definition isUpper :: "16 word \<Rightarrow> bool" where
  "isUpper c = (0x41 \<le> c \<and> c \<le> 0x5A)"

definition isLower :: "16 word \<Rightarrow> bool" where
  "isLower c = (0x61 \<le> c \<and> c \<le> 0x7A)"

definition isDigit :: "16 word \<Rightarrow> bool" where
  "isDigit c = (0x30 \<le> c \<and> c \<le> 0x39)"

definition specialChars :: jsstring where
  "specialChars = js ''!@#$%^&*(),.?'' @ [0x22] @ js '':{}|<>''"

definition isSpecial :: "16 word \<Rightarrow> bool" where
  "isSpecial c = (c \<in> set specialChars)"

definition checkPasswordStrength :: "jsstring \<Rightarrow> PasswordStrength" where
  "checkPasswordStrength pwd =
     \<lparr> hasMinLength = (length pwd \<ge> 8),
       hasUppercase = list_ex isUpper pwd,
       hasLowercase = list_ex isLower pwd,
       hasNumber = list_ex isDigit pwd,
       hasSpecialChar = list_ex isSpecial pwd \<rparr>"

text \<open>\<open>Object.values\<close> lists the property values in the order the literal declares them.\<close>

definition Object_values :: "PasswordStrength \<Rightarrow> bool list" where
  "Object_values ps =
     [hasMinLength ps, hasUppercase ps, hasLowercase ps, hasNumber ps, hasSpecialChar ps]"

definition isPasswordValid :: "jsstring \<Rightarrow> bool" where
  "isPasswordValid pwd = list_all (\<lambda>b. b) (Object_values (checkPasswordStrength pwd))"

definition passwordsMatch :: "jsstring \<Rightarrow> jsstring \<Rightarrow> bool" where
  "passwordsMatch pwd confirmPassword = (pwd = confirmPassword \<and> length confirmPassword > 0)"

section \<open>Requests, responses and handler runs\<close>

text \<open>
  The object handed to \<open>JSON.stringify\<close> is a list of keys and values in the order of the
  object literal; \<open>JUndefined\<close> is a key whose value is \<open>undefined\<close>.
\<close>

datatype json = JString jsstring | JBool bool | JUndefined

record request =
  path :: string
  "method" :: string
  headers :: "(string \<times> jsstring) list"
  body :: "(string \<times> json) list"

text \<open>
  What \<open>await fetch(...)\<close> does: the promise rejects (\<open>NetworkFailure\<close>), or it resolves to
  a response with its \<open>ok\<close> flag and a body. \<open>await response.json()\<close> rejects when the body is
  not JSON (\<open>NotJson\<close>). It yields \<open>null\<close> when the body is the JSON text \<open>null\<close>
  (\<open>JsonNull\<close>): reading a property of \<open>null\<close> then throws a \<open>TypeError\<close>. Any other
  parsed value has properties that can be read (a missing one is \<open>undefined\<close>), and is
  given at the type the handler reads it at (\<open>Json\<close>).
\<close>

datatype 'd response_body = NotJson | JsonNull | Json 'd

datatype 'd fetch_result = NetworkFailure | Response bool "'d response_body"

text \<open>
  The properties the handlers read off a parsed body: \<open>data.token\<close> and \<open>error.error\<close>
  (\<open>errorData.error\<close>). Each is a string, as the endpoints declare it, or \<open>None\<close> when the
  body has no such property.
\<close>

record reply =
  reply_token :: "jsstring option"
  reply_error :: "jsstring option"

text \<open>\<open>x || d\<close> on a string-or-undefined \<open>x\<close>: the empty string and \<open>undefined\<close> are falsy.\<close>

definition or_default :: "jsstring option \<Rightarrow> jsstring \<Rightarrow> jsstring" where
  "or_default x d = (case x of None \<Rightarrow> d | Some m \<Rightarrow> if m = [] then d else m)"

text \<open>
  A handler run is the component state after the handler has finished and the effects it
  performed, in order: requests issued, the \<open>onLogin\<close>/\<open>onRegister\<close> callback with its
  argument, timers set, lines written by \<open>console.error\<close>.
\<close>

datatype effect =
    Fetch request
  | OnToken "jsstring option"
  | SetTimeout nat
  | ConsoleError string

record 's run =
  after :: 's
  effects :: "effect list"

fun fetches :: "effect list \<Rightarrow> request list" where
  "fetches [] = []"
| "fetches (Fetch r # es) = r # fetches es"
| "fetches (e # es) = fetches es"

section \<open>\<open>Login.handleSubmit\<close>\<close>

record credential_form =
  username :: jsstring
  password :: jsstring
  loading :: bool
  error :: jsstring



section \<open>\<open>Register.handleSubmit\<close>\<close>

text \<open>
  The registration form has the fields of the login form and the confirmation beside them.
  \<open>isPasswordValid\<close> and \<open>passwordsMatch\<close> are computed from the state the handler closes
  over.
\<close>

record register_form = credential_form +
  confirmPassword :: jsstring
  showPassword :: bool
  showConfirmPassword :: bool

definition register_request :: "register_form \<Rightarrow> request" where
  "register_request st =
     \<lparr> path = ''/api/v1/auth/register'', method = ''POST'',
       headers = [(''Content-Type'', js ''application/json'')],
       body = [(''username'', JString (username st)), (''password'', JString (password st)),
               (''confirmPassword'', JString (confirmPassword st))] \<rparr>"

definition Register_handleSubmit ::
  "reply fetch_result \<Rightarrow> register_form \<Rightarrow> register_form run" where
  "Register_handleSubmit res st =
     (let st0 = st\<lparr>error := []\<rparr> in
      if \<not> isPasswordValid (password st) then
        \<lparr> after = st0\<lparr>error := js ''Please ensure your password meets all requirements''\<rparr>,
          effects = [] \<rparr>
      else if \<not> passwordsMatch (password st) (confirmPassword st) then
        \<lparr> after = st0\<lparr>error := js ''Passwords do not match''\<rparr>, effects = [] \<rparr>
      else
        (let st1 = st0\<lparr>loading := True\<rparr>;
             req = register_request st;
             caught = \<lparr> after = st1\<lparr>error := js ''Network error. Please try again.'',
                                     loading := False\<rparr>,
                        effects = [Fetch req, ConsoleError ''Registration error:''] \<rparr>
         in case res of
              NetworkFailure \<Rightarrow> caught
            | Response ok b \<Rightarrow>
                (case b of
                   NotJson \<Rightarrow> caught
                 | JsonNull \<Rightarrow> caught
                 | Json d \<Rightarrow>
                     if ok then \<lparr> after = st1\<lparr>loading := False\<rparr>,
                                  effects = [Fetch req, OnToken (reply_token d)] \<rparr>
                     else \<lparr> after = st1\<lparr>error := or_default (reply_error d) (js ''Registration failed''),
                                         loading := False\<rparr>,
                            effects = [Fetch req] \<rparr>)))"










section \<open>The media dialog: \<open>YouTubeDownloadDialog\<close>\<close>

definition validateYouTubeUrl :: "jsstring \<Rightarrow> bool" where
  "validateYouTubeUrl url = (js_includes url (js ''youtube.com'') \<or> js_includes url (js ''youtu.be''))"

text \<open>
  The regular expression of \<open>getYouTubeVideoId\<close> uses literals, character classes,
  sequence, alternation, the greedy quantifiers \<open>?\<close>, \<open>*\<close>, \<open>+\<close> and \<open>{n}\<close> (the last three on
  character classes only) and one capturing group. The matcher below is the backtracking
  matcher of ECMAScript restricted to these: it lists the ways a pattern matches a prefix
  of the input in the order backtracking tries them (left alternative first, longest
  repetition first). A match state is the text captured by the group so far and the input
  that remains.
\<close>

datatype rx =
    Lit jsstring
  | Class "16 word \<Rightarrow> bool"
  | Seq rx rx
  | Alt rx rx
  | Opt rx
  | Star "16 word \<Rightarrow> bool"
  | Plus "16 word \<Rightarrow> bool"
  | Repeat nat "16 word \<Rightarrow> bool"
  | Group rx

type_synonym mstate = "jsstring option \<times> jsstring"

fun greedy :: "(16 word \<Rightarrow> bool) \<Rightarrow> jsstring \<Rightarrow> jsstring list" where
  "greedy p [] = [[]]"
| "greedy p (x # xs) = (if p x then greedy p xs else []) @ [x # xs]"

fun rx_run :: "rx \<Rightarrow> mstate \<Rightarrow> mstate list" where
  "rx_run (Lit l) (c, s) = (if prefix l s then [(c, drop (length l) s)] else [])"
| "rx_run (Class p) (c, s) = (case s of [] \<Rightarrow> [] | x # xs \<Rightarrow> if p x then [(c, xs)] else [])"
| "rx_run (Seq a b) st = concat (map (rx_run b) (rx_run a st))"
| "rx_run (Alt a b) st = rx_run a st @ rx_run b st"
| "rx_run (Opt a) st = rx_run a st @ [st]"
| "rx_run (Star p) (c, s) = map (Pair c) (greedy p s)"
| "rx_run (Plus p) (c, s) =
     (case s of [] \<Rightarrow> [] | x # xs \<Rightarrow> if p x then map (Pair c) (greedy p xs) else [])"
| "rx_run (Repeat n p) (c, s) =
     (if n \<le> length s \<and> list_all p (take n s) then [(c, drop n s)] else [])"
| "rx_run (Group a) (c, s) =
     map (\<lambda>(c', s'). (Some (take (length s - length s') s), s')) (rx_run a (c, s))"

text \<open>
  \<open>s.match(r)\<close> for a pattern without the \<open>g\<close> flag: the first way the pattern matches at
  the leftmost position where it matches at all. The result is \<open>None\<close> for \<open>null\<close> and
  otherwise holds \<open>match[1]\<close>.
\<close>

fun rx_match :: "rx \<Rightarrow> jsstring \<Rightarrow> jsstring option option" where
  "rx_match r [] = (case rx_run r (None, []) of [] \<Rightarrow> None | (c, _) # _ \<Rightarrow> Some c)"
| "rx_match r (x # xs) =
     (case rx_run r (None, x # xs) of [] \<Rightarrow> rx_match r xs | (c, _) # _ \<Rightarrow> Some c)"

definition anyChar :: "16 word \<Rightarrow> bool" where
  "anyChar c = (c \<notin> set [0x0A, 0x0D, 0x2028, 0x2029])"

definition notSlash :: "16 word \<Rightarrow> bool" where
  "notSlash c = (c \<noteq> 0x2F)"

definition queryMark :: "16 word \<Rightarrow> bool" where
  "queryMark c = (c \<in> set (js ''?&''))"

definition idChar :: "16 word \<Rightarrow> bool" where
  "idChar c = (c \<notin> set [0x22, 0x26, 0x3F, 0x2F] \<and> \<not> isWhiteSpace c)"

definition videoIdRegex :: rx where
  "videoIdRegex =
     Seq (Alt (Seq (Lit (js ''youtube.com/''))
                   (Alt (Seq (Plus notSlash) (Seq (Lit (js ''/'')) (Seq (Plus anyChar) (Lit (js ''/'')))))
                   (Alt (Seq (Alt (Lit (js ''v'')) (Seq (Lit (js ''e'')) (Opt (Lit (js ''mbed'')))))
                             (Lit (js ''/'')))
                        (Seq (Star anyChar) (Seq (Class queryMark) (Lit (js ''v='')))))))
              (Lit (js ''youtu.be/'')))
         (Group (Repeat 11 idChar))"

definition getYouTubeVideoId :: "jsstring \<Rightarrow> jsstring option" where
  "getYouTubeVideoId url = (case rx_match videoIdRegex url of None \<Rightarrow> None | Some m1 \<Rightarrow> m1)"

record youtube_dialog =
  url :: jsstring
  title :: jsstring
  isDownloading :: bool
  dl_error :: "jsstring option"
  success :: bool

text \<open>
  \<open>dl_error\<close> is the dialog's \<open>error\<close> state, a string or \<open>null\<close>. The headers of
  \<open>getAuthHeaders()\<close> come from the authentication context and are a parameter.
\<close>

definition youtube_request :: "(string \<times> jsstring) list \<Rightarrow> youtube_dialog \<Rightarrow> request" where
  "youtube_request authHeaders st =
     \<lparr> path = ''/api/v1/transcription/youtube'', method = ''POST'',
       headers = (''Content-Type'', js ''application/json'') # authHeaders,
       body = [(''url'', JString (trim (url st))),
               (''title'', if trim (title st) = [] then JUndefined else JString (trim (title st)))] \<rparr>"

definition YouTube_handleSubmit ::
  "(string \<times> jsstring) list \<Rightarrow> reply fetch_result \<Rightarrow> youtube_dialog \<Rightarrow> youtube_dialog run" where
  "YouTube_handleSubmit authHeaders res st =
     (if trim (url st) = [] then
        \<lparr> after = st\<lparr>dl_error := Some (js ''Please enter a YouTube URL'')\<rparr>, effects = [] \<rparr>
      else if \<not> validateYouTubeUrl (url st) then
        \<lparr> after = st\<lparr>dl_error := Some (js ''Please enter a valid YouTube URL'')\<rparr>, effects = [] \<rparr>
      else
        (let st1 = st\<lparr>isDownloading := True, dl_error := None\<rparr>;
             req = youtube_request authHeaders st;
             caught = \<lparr> after = st1\<lparr>dl_error := Some (js ''Network error occurred. Please try again.''),
                                     isDownloading := False\<rparr>,
                        effects = [Fetch req] \<rparr>
         in case res of
              NetworkFailure \<Rightarrow> caught
            | Response ok b \<Rightarrow>
                if ok then \<lparr> after = st1\<lparr>success := True, isDownloading := False\<rparr>,
                             effects = [Fetch req, SetTimeout 2000] \<rparr>
                else (case b of
                        NotJson \<Rightarrow> caught
                      | JsonNull \<Rightarrow> caught
                      | Json d \<Rightarrow>
                          \<lparr> after = st1\<lparr>dl_error := Some (or_default (reply_error d)
                                                      (js ''Failed to download YouTube audio'')),
                                          isDownloading := False\<rparr>,
                            effects = [Fetch req] \<rparr>)))"

section \<open>The LLM settings panel: \<open>LLMSettings\<close>\<close>

text \<open>
  \<open>config_id\<close> is the \<open>id\<close> property of \<open>LLMConfig\<close>; an optional property is \<open>None\<close> when
  it is missing. \<open>llm_loading\<close> is the panel's \<open>loading\<close> state.
\<close>

record LLMConfig =
  config_id :: "nat option"
  provider :: jsstring
  base_url :: "jsstring option"
  has_api_key :: "bool option"
  is_active :: bool
  created_at :: "jsstring option"
  updated_at :: "jsstring option"

datatype message_type = MsgSuccess | MsgError

text \<open>
  The panel's state. The component renders, and its handlers run, with a configuration in
  \<open>config\<close>. \<open>setConfig(data)\<close> stores whatever the body of the save response parsed to,
  \<open>null\<close> too, so the state a save leaves behind holds an optional configuration
  (\<open>None\<close> is \<open>null\<close>).
\<close>

record 'c llm_panel =
  config :: 'c
  baseUrl :: jsstring
  apiKey :: jsstring
  llm_loading :: bool
  saving :: bool
  message :: "(message_type \<times> jsstring) option"

type_synonym llm_settings = "LLMConfig llm_panel"

definition holding :: "'d \<Rightarrow> 'c llm_panel \<Rightarrow> 'd llm_panel" where
  "holding c st =
     \<lparr> config = c, baseUrl = baseUrl st, apiKey = apiKey st, llm_loading = llm_loading st,
       saving = saving st, message = message st \<rparr>"

text \<open>
  The parsed body of the save endpoint: read as the new configuration after a success
  (\<open>setConfig(data)\<close>), and for its \<open>error\<close> property otherwise.
\<close>

record config_reply = reply +
  reply_config :: LLMConfig

text \<open>
  The payload literal: \<open>provider\<close>, \<open>is_active: true\<close>, then the two conditional spreads.
  Spreading \<open>false\<close> adds no key.
\<close>

definition save_payload :: "llm_settings \<Rightarrow> (string \<times> json) list" where
  "save_payload st =
     [(''provider'', JString (provider (config st))), (''is_active'', JBool True)]
     @ (if provider (config st) = js ''ollama'' then [(''base_url'', JString (baseUrl st))] else [])
     @ (if provider (config st) = js ''openai'' then [(''api_key'', JString (apiKey st))] else [])"

definition save_request :: "(string \<times> jsstring) list \<Rightarrow> llm_settings \<Rightarrow> request" where
  "save_request authHeaders st =
     \<lparr> path = ''/api/v1/llm/config'', method = ''POST'',
       headers = authHeaders @ [(''Content-Type'', js ''application/json'')],
       body = save_payload st \<rparr>"

definition handleSave ::
  "(string \<times> jsstring) list \<Rightarrow> config_reply fetch_result \<Rightarrow> llm_settings
     \<Rightarrow> LLMConfig option llm_panel run" where
  "handleSave authHeaders res st =
     (let st1 = (holding (Some (config st)) st)\<lparr>saving := True, message := None\<rparr>;
          req = save_request authHeaders st;
          saved = (\<lambda>data.
            \<lparr> after = st1\<lparr>config := data,
                            message := Some (MsgSuccess,
                               js ''LLM configuration saved successfully!''),
                            apiKey := (if provider (config st) = js ''openai'' then []
                                       else apiKey st),
                            saving := False\<rparr>,
              effects = [Fetch req] \<rparr>);
          caught = \<lparr> after = st1\<lparr>message := Some (MsgError,
                                       js ''Failed to save configuration. Please try again.''),
                                  saving := False\<rparr>,
                     effects = [Fetch req, ConsoleError ''Error saving LLM config:''] \<rparr>
      in case res of
           NetworkFailure \<Rightarrow> caught
         | Response ok b \<Rightarrow>
             (case b of
                NotJson \<Rightarrow> caught
              | JsonNull \<Rightarrow> if ok then saved None else caught
              | Json d \<Rightarrow>
                  if ok then saved (Some (reply_config d))
                  else
                    \<lparr> after = st1\<lparr>message := Some (MsgError,
                                       or_default (reply_error d) (js ''Failed to save configuration'')),
                                    saving := False\<rparr>,
                      effects = [Fetch req] \<rparr>))"

text \<open>
  \<open>isFormValid()\<close> is used for its truthiness: \<open>apiKey.trim() !== "" || config.has_api_key\<close>
  is truthy when the key is not blank or \<open>has_api_key\<close> is \<open>true\<close>. The save button is
  disabled by \<open>!isFormValid() || saving\<close>.
\<close>

definition isFormValid :: "llm_settings \<Rightarrow> bool" where
  "isFormValid st =
     (if provider (config st) = js ''ollama'' then trim (baseUrl st) \<noteq> []
      else if provider (config st) = js ''openai''
        then (trim (apiKey st) \<noteq> [] \<or> has_api_key (config st) = Some True)
      else False)"

definition saveDisabled :: "llm_settings \<Rightarrow> bool" where
  "saveDisabled st = (\<not> isFormValid st \<or> saving st)"

section \<open>The session behind the gate\<close>

text \<open>
  Modelled from the spec: the session state and its one-shot initialization check. They
  belong to the authentication context (\<open>contexts/AuthContext\<close>, which \<open>ProtectedRoute\<close>
  imports through \<open>useAuth\<close>) and are not among the source files. After the spec: a session
  holds an optional token and the flags \<open>isInitialized\<close> and \<open>requiresRegistration\<close>;
  \<open>isAuthenticated\<close> is derived (token present and non-empty); the session is created at
  application start uninitialized, with no token kept from an earlier run; the
  initialization check asks the backend whether any account exists and resolves
  \<open>requiresRegistration\<close> from the answer; when the check fails, registration is assumed
  not to be required. Either way the session is initialized afterwards.
\<close>

record session =
  session_token :: "jsstring option"
  session_isInitialized :: bool
  session_requiresRegistration :: bool

definition useAuth :: "session \<Rightarrow> auth_context" where
  "useAuth s =
     \<lparr> isAuthenticated = (case session_token s of None \<Rightarrow> False | Some t \<Rightarrow> t \<noteq> []),
       requiresRegistration = session_requiresRegistration s,
       isInitialized = session_isInitialized s \<rparr>"

datatype init_check = AccountExists bool | CheckFailed

definition startSession :: session where
  "startSession =
     \<lparr> session_token = None, session_isInitialized = False, session_requiresRegistration = False \<rparr>"

definition initialize :: "init_check \<Rightarrow> session \<Rightarrow> session" where
  "initialize r s =
     (case r of
        AccountExists e \<Rightarrow> s\<lparr>session_isInitialized := True, session_requiresRegistration := \<not> e\<rparr>
      | CheckFailed \<Rightarrow> s\<lparr>session_isInitialized := True, session_requiresRegistration := False\<rparr>)"

section \<open>Theorems\<close>

text \<open>
  C1. For every combination of \<open>(isInitialized, requiresRegistration, isAuthenticated)\<close> the
  gate renders one of the four screens, in strict priority order: not initialized gives the
  loading screen whatever the other two flags are; otherwise a required registration gives
  the registration screen whatever \<open>isAuthenticated\<close> is; otherwise an unauthenticated
  session gives the login screen; otherwise the protected content is rendered. The four rows
  cover all eight combinations, and the four screens are pairwise different.
\<close>

theorem ProtectedRoute_priority:
  "ProtectedRoute \<lparr>isAuthenticated = a, requiresRegistration = r, isInitialized = False\<rparr> ch
     = LoadingScreen
   \<and> ProtectedRoute \<lparr>isAuthenticated = a, requiresRegistration = True, isInitialized = True\<rparr> ch
     = RegisterScreen
   \<and> ProtectedRoute \<lparr>isAuthenticated = False, requiresRegistration = False, isInitialized = True\<rparr> ch
     = LoginScreen
   \<and> ProtectedRoute \<lparr>isAuthenticated = True, requiresRegistration = False, isInitialized = True\<rparr> ch
     = Children ch
   \<and> distinct [LoadingScreen, RegisterScreen, LoginScreen, Children ch]"
  by (simp add: ProtectedRoute_def)

theorem ProtectedRoute_priority_witness:
  "ProtectedRoute \<lparr>isAuthenticated = True, requiresRegistration = True, isInitialized = False\<rparr> ()
     = LoadingScreen
   \<and> ProtectedRoute \<lparr>isAuthenticated = True, requiresRegistration = True, isInitialized = True\<rparr> ()
     = RegisterScreen
   \<and> ProtectedRoute \<lparr>isAuthenticated = True, requiresRegistration = False, isInitialized = True\<rparr> ()
     = Children ()"
  using ProtectedRoute_priority [of True True "()"] by simp

text \<open>
  C2. A password is valid exactly when the five rules hold together: at least eight code
  units, a code unit in \<open>A\<close>-\<open>Z\<close>, one in \<open>a\<close>-\<open>z\<close>, a digit, and a member of the punctuation
  set. The order of the rules does not matter: the conjunction of the five facts taken in
  any order is the same truth value.
\<close>

theorem isPasswordValid_iff_all_rules:
  "(isPasswordValid p \<longleftrightarrow>
      (\<exists>c \<in> set p. c \<in> set specialChars) \<and> (\<exists>c \<in> set p. 0x30 \<le> c \<and> c \<le> 0x39)
      \<and> (\<exists>c \<in> set p. 0x61 \<le> c \<and> c \<le> 0x7A) \<and> (\<exists>c \<in> set p. 0x41 \<le> c \<and> c \<le> 0x5A)
      \<and> 8 \<le> length p)
   \<and> (\<forall>facts. mset facts = mset (Object_values (checkPasswordStrength p))
         \<longrightarrow> (list_all (\<lambda>b. b) facts \<longleftrightarrow> isPasswordValid p))"
proof
  show "isPasswordValid p \<longleftrightarrow>
      (\<exists>c \<in> set p. c \<in> set specialChars) \<and> (\<exists>c \<in> set p. 0x30 \<le> c \<and> c \<le> 0x39)
      \<and> (\<exists>c \<in> set p. 0x61 \<le> c \<and> c \<le> 0x7A) \<and> (\<exists>c \<in> set p. 0x41 \<le> c \<and> c \<le> 0x5A)
      \<and> 8 \<le> length p"
    unfolding isPasswordValid_def Object_values_def checkPasswordStrength_def
      isUpper_def isLower_def isDigit_def isSpecial_def list_ex_iff
    by auto
next
  show "\<forall>facts. mset facts = mset (Object_values (checkPasswordStrength p))
         \<longrightarrow> (list_all (\<lambda>b. b) facts \<longleftrightarrow> isPasswordValid p)"
  proof (intro allI impI)
    fix facts :: "bool list"
    assume "mset facts = mset (Object_values (checkPasswordStrength p))"
    then have "set facts = set (Object_values (checkPasswordStrength p))"
      by (rule mset_eq_setD)
    then show "list_all (\<lambda>b. b) facts \<longleftrightarrow> isPasswordValid p"
      by (simp add: isPasswordValid_def list_all_iff)
  qed
qed

theorem isPasswordValid_iff_all_rules_witness:
  "isPasswordValid (js ''Abcdef1!'')
   \<and> list_all (\<lambda>b. b) (rev (Object_values (checkPasswordStrength (js ''Abcdef1!''))))
   \<and> \<not> isPasswordValid (js ''abc'')"
proof -
  let ?p = "js ''Abcdef1!''"
  have m: "mset (rev (Object_values (checkPasswordStrength ?p)))
             = mset (Object_values (checkPasswordStrength ?p))"
    by simp
  have v: "isPasswordValid ?p"
    using isPasswordValid_iff_all_rules [of ?p] by (simp add: js_def specialChars_def)
  have r: "list_all (\<lambda>b. b) (rev (Object_values (checkPasswordStrength ?p)))"
    using isPasswordValid_iff_all_rules [of ?p] m v by blast
  have n: "\<not> isPasswordValid (js ''abc'')"
    using isPasswordValid_iff_all_rules [of "js ''abc''"] by (simp add: js_def)
  from v r n show ?thesis by simp
qed

text \<open>
  C3. When the password fails the policy or the confirmation does not match, the
  registration handler stops before \<open>fetch\<close>: it performs no effect at all, so no request
  is issued, and the message it sets is fixed by which check failed (the policy message when
  the password is invalid, the mismatch message otherwise), whatever the network would have
  answered. In particular the password \<open>abc\<close> never leads to a request.
\<close>

theorem Register_rejects_locally:
  "(\<not> isPasswordValid (password st) \<or> \<not> passwordsMatch (password st) (confirmPassword st)
      \<longrightarrow> fetches (effects (Register_handleSubmit res st)) = []
          \<and> effects (Register_handleSubmit res st) = []
          \<and> error (after (Register_handleSubmit res st))
              = (if \<not> isPasswordValid (password st)
                 then js ''Please ensure your password meets all requirements''
                 else js ''Passwords do not match''))
   \<and> (password st = js ''abc'' \<longrightarrow> fetches (effects (Register_handleSubmit res st)) = [])"
proof -
  have abc: "\<not> isPasswordValid (js ''abc'')"
    by (simp add: isPasswordValid_def Object_values_def checkPasswordStrength_def js_def)
  show ?thesis
    using abc by (auto simp: Register_handleSubmit_def Let_def)
qed

theorem Register_rejects_locally_witness:
  "fetches (effects (Register_handleSubmit NetworkFailure
      \<lparr>username = js ''admin'', password = js ''abc'', loading = False, error = [],
        confirmPassword = js ''abc'', showPassword = False, showConfirmPassword = False\<rparr>)) = []
   \<and> error (after (Register_handleSubmit (Response True (Json \<lparr>reply_token = Some (js ''t''), reply_error = None\<rparr>))
      \<lparr>username = js ''admin'', password = js ''Abcdef1!'', loading = False, error = [],
        confirmPassword = js ''Abcdef1'', showPassword = False, showConfirmPassword = False\<rparr>))
     = js ''Passwords do not match''"
proof -
  let ?s1 = "\<lparr>username = js ''admin'', password = js ''abc'', loading = False, error = [],
        confirmPassword = js ''abc'', showPassword = False, showConfirmPassword = False\<rparr>"
  let ?s2 = "\<lparr>username = js ''admin'', password = js ''Abcdef1!'', loading = False, error = [],
        confirmPassword = js ''Abcdef1'', showPassword = False, showConfirmPassword = False\<rparr>"
  have v: "isPasswordValid (js ''Abcdef1!'')"
    by (simp add: isPasswordValid_def Object_values_def checkPasswordStrength_def js_def
        isUpper_def isLower_def isDigit_def isSpecial_def specialChars_def)
  have m: "\<not> passwordsMatch (password ?s2) (confirmPassword ?s2)"
    by (simp add: passwordsMatch_def js_def)
  have a: "fetches (effects (Register_handleSubmit NetworkFailure ?s1)) = []"
    using Register_rejects_locally [of ?s1 NetworkFailure] by simp
  have b: "error (after (Register_handleSubmit (Response True (Json \<lparr>reply_token = Some (js ''t''), reply_error = None\<rparr>)) ?s2))
     = js ''Passwords do not match''"
    using Register_rejects_locally [of ?s2 "Response True (Json \<lparr>reply_token = Some (js ''t''), reply_error = None\<rparr>)"] m v
    by simp
  from a b show ?thesis by simp
qed







text \<open>
  Helper facts about strings: \<open>includes\<close> is the contiguous-sublist relation, \<open>trim\<close>
  yields the empty string exactly on strings of white space, and a URL that passes
  \<open>validateYouTubeUrl\<close> is not blank, so the blank-URL guard of the dialog never stops it.
\<close>

lemma js_includes_sublist: "js_includes s sub \<longleftrightarrow> sublist sub s"
  by (induction s) (simp_all add: sublist_Cons_right)

lemma trim_Nil_iff: "trim s = [] \<longleftrightarrow> (\<forall>c \<in> set s. isWhiteSpace c)"
proof
  assume t: "trim s = []"
  show "\<forall>c \<in> set s. isWhiteSpace c"
  proof (rule ccontr)
    assume "\<not> (\<forall>c \<in> set s. isWhiteSpace c)"
    then have ne: "dropWhile isWhiteSpace s \<noteq> []"
      by (simp add: dropWhile_eq_Nil_conv)
    then have "\<not> isWhiteSpace (hd (dropWhile isWhiteSpace s))"
      by (simp add: hd_dropWhile)
    moreover have "hd (dropWhile isWhiteSpace s) \<in> set (rev (dropWhile isWhiteSpace s))"
      using ne by simp
    moreover have "\<forall>c \<in> set (rev (dropWhile isWhiteSpace s)). isWhiteSpace c"
      using t by (simp only: trim_def rev_is_Nil_conv dropWhile_eq_Nil_conv)
    ultimately show False by blast
  qed
next
  assume "\<forall>c \<in> set s. isWhiteSpace c"
  then have d: "dropWhile isWhiteSpace s = []"
    by (simp add: dropWhile_eq_Nil_conv)
  show "trim s = []"
    by (simp add: trim_def d)
qed

lemma sublist_trim_nonempty:
  assumes "sublist (y # ys) s" and "\<not> isWhiteSpace y"
  shows "trim s \<noteq> []"
proof -
  from assms(1) have "y \<in> set s"
    by (auto simp: sublist_def)
  with assms(2) show ?thesis
    by (auto simp: trim_Nil_iff)
qed

lemma validate_trim_nonempty: "validateYouTubeUrl u \<Longrightarrow> trim u \<noteq> []"
proof -
  assume v: "validateYouTubeUrl u"
  have y: "\<not> isWhiteSpace 0x79" by (simp add: isWhiteSpace_def)
  have a: "js ''youtube.com'' = 0x79 # js ''outube.com''" by (simp add: js_def)
  have b: "js ''youtu.be'' = 0x79 # js ''outu.be''" by (simp add: js_def)
  from v have "sublist (0x79 # js ''outube.com'') u \<or> sublist (0x79 # js ''outu.be'') u"
    unfolding validateYouTubeUrl_def js_includes_sublist a b .
  then show ?thesis using y sublist_trim_nonempty by blast
qed

lemma requests_iff_validate:
  "fetches (effects (YouTube_handleSubmit hs res st))
     = (if validateYouTubeUrl (url st) then [youtube_request hs st] else [])"
  using validate_trim_nonempty [of "url st"]
  by (simp add: YouTube_handleSubmit_def Let_def split: fetch_result.split response_body.split)

text \<open>
  C5. The URL \<open>https://youtu.be/dQw4w9WgXcQ\<close> passes the local validation, the identifier
  extracted from it is \<open>dQw4w9WgXcQ\<close>, and submitting it issues the import request. The
  URL \<open>https://example.com/video\<close> fails the validation: the dialog sets the validation
  message and performs no effect, so no request is issued.
\<close>

theorem media_url_examples:
  "validateYouTubeUrl (js ''https://youtu.be/dQw4w9WgXcQ'')
   \<and> getYouTubeVideoId (js ''https://youtu.be/dQw4w9WgXcQ'') = Some (js ''dQw4w9WgXcQ'')
   \<and> fetches (effects (YouTube_handleSubmit hs res (st\<lparr>url := js ''https://youtu.be/dQw4w9WgXcQ''\<rparr>)))
       = [youtube_request hs (st\<lparr>url := js ''https://youtu.be/dQw4w9WgXcQ''\<rparr>)]
   \<and> \<not> validateYouTubeUrl (js ''https://example.com/video'')
   \<and> effects (YouTube_handleSubmit hs res (st\<lparr>url := js ''https://example.com/video''\<rparr>)) = []
   \<and> dl_error (after (YouTube_handleSubmit hs res (st\<lparr>url := js ''https://example.com/video''\<rparr>)))
       = Some (js ''Please enter a valid YouTube URL'')"
proof -
  have v: "validateYouTubeUrl (js ''https://youtu.be/dQw4w9WgXcQ'')"
    by (simp add: validateYouTubeUrl_def js_def)
  have i: "getYouTubeVideoId (js ''https://youtu.be/dQw4w9WgXcQ'') = Some (js ''dQw4w9WgXcQ'')"
    by code_simp
  have n: "\<not> validateYouTubeUrl (js ''https://example.com/video'')"
    by (simp add: validateYouTubeUrl_def js_def)
  have h: "\<not> isWhiteSpace 0x68"
    by (simp add: isWhiteSpace_def)
  have "js ''https://example.com/video'' = 0x68 # js ''ttps://example.com/video''"
    by (simp add: js_def)
  then have t: "trim (js ''https://example.com/video'') \<noteq> []"
    using h by (simp add: trim_Nil_iff)
  have r: "fetches (effects (YouTube_handleSubmit hs res (st\<lparr>url := js ''https://youtu.be/dQw4w9WgXcQ''\<rparr>)))
       = [youtube_request hs (st\<lparr>url := js ''https://youtu.be/dQw4w9WgXcQ''\<rparr>)]"
    using v by (simp add: requests_iff_validate)
  have e: "effects (YouTube_handleSubmit hs res (st\<lparr>url := js ''https://example.com/video''\<rparr>)) = []"
    using n t by (simp add: YouTube_handleSubmit_def)
  have m: "dl_error (after (YouTube_handleSubmit hs res (st\<lparr>url := js ''https://example.com/video''\<rparr>)))
       = Some (js ''Please enter a valid YouTube URL'')"
    using n t by (simp add: YouTube_handleSubmit_def)
  from v i r n e m show ?thesis by blast
qed

theorem media_url_examples_witness:
  "getYouTubeVideoId (js ''https://youtu.be/dQw4w9WgXcQ'') = Some (js ''dQw4w9WgXcQ'')
   \<and> effects (YouTube_handleSubmit [] NetworkFailure
        (\<lparr>url = [], title = [], isDownloading = False, dl_error = None, success = False\<rparr>
         \<lparr>url := js ''https://example.com/video''\<rparr>)) = []"
  using media_url_examples [where hs = "[]" and res = NetworkFailure
      and st = "\<lparr>url = [], title = [], isDownloading = False, dl_error = None, success = False\<rparr>"]
  by blast

text \<open>
  C10. The local validation accepts a string exactly when \<open>youtube.com\<close> or \<open>youtu.be\<close>
  occurs in it somewhere. Submission issues its request exactly for the accepted strings.
  So \<open>https://example.com/?ref=youtu.be\<close>, which is not hosted on the video site, is
  accepted and its submission issues the request.
\<close>

theorem validateYouTubeUrl_substring:
  "(validateYouTubeUrl u \<longleftrightarrow>
      (\<exists>ps ss. u = ps @ js ''youtube.com'' @ ss) \<or> (\<exists>ps ss. u = ps @ js ''youtu.be'' @ ss))
   \<and> fetches (effects (YouTube_handleSubmit hs res (st\<lparr>url := u\<rparr>)))
       = (if validateYouTubeUrl u then [youtube_request hs (st\<lparr>url := u\<rparr>)] else [])
   \<and> validateYouTubeUrl (js ''https://example.com/?ref=youtu.be'')
   \<and> fetches (effects (YouTube_handleSubmit hs res (st\<lparr>url := js ''https://example.com/?ref=youtu.be''\<rparr>)))
       = [youtube_request hs (st\<lparr>url := js ''https://example.com/?ref=youtu.be''\<rparr>)]"
proof -
  have a: "validateYouTubeUrl u \<longleftrightarrow>
      (\<exists>ps ss. u = ps @ js ''youtube.com'' @ ss) \<or> (\<exists>ps ss. u = ps @ js ''youtu.be'' @ ss)"
    by (simp add: validateYouTubeUrl_def js_includes_sublist sublist_def)
  have b: "fetches (effects (YouTube_handleSubmit hs res (st\<lparr>url := u\<rparr>)))
       = (if validateYouTubeUrl u then [youtube_request hs (st\<lparr>url := u\<rparr>)] else [])"
    by (simp add: requests_iff_validate)
  have c: "validateYouTubeUrl (js ''https://example.com/?ref=youtu.be'')"
    by (simp add: validateYouTubeUrl_def js_def)
  have d: "fetches (effects (YouTube_handleSubmit hs res (st\<lparr>url := js ''https://example.com/?ref=youtu.be''\<rparr>)))
       = [youtube_request hs (st\<lparr>url := js ''https://example.com/?ref=youtu.be''\<rparr>)]"
    using c by (simp add: requests_iff_validate)
  from a b c d show ?thesis by blast
qed

theorem validateYouTubeUrl_substring_witness:
  "validateYouTubeUrl (js ''https://example.com/?ref=youtu.be'')
   \<and> fetches (effects (YouTube_handleSubmit [] NetworkFailure
        (\<lparr>url = [], title = [], isDownloading = False, dl_error = None, success = False\<rparr>
         \<lparr>url := js ''https://example.com/?ref=youtu.be''\<rparr>)))
      = [\<lparr> path = ''/api/v1/transcription/youtube'', method = ''POST'',
            headers = [(''Content-Type'', js ''application/json'')],
            body = [(''url'', JString (js ''https://example.com/?ref=youtu.be'')),
                    (''title'', JUndefined)] \<rparr>]"
proof -
  have h: "\<not> isWhiteSpace 0x68" "\<not> isWhiteSpace 0x65"
    by (simp_all add: isWhiteSpace_def)
  have t: "trim (js ''https://example.com/?ref=youtu.be'') = js ''https://example.com/?ref=youtu.be''"
    using h by (simp add: trim_def js_def)
  have q: "youtube_request []
        (\<lparr>url = [], title = [], isDownloading = False, dl_error = None, success = False\<rparr>
         \<lparr>url := js ''https://example.com/?ref=youtu.be''\<rparr>)
      = \<lparr> path = ''/api/v1/transcription/youtube'', method = ''POST'',
            headers = [(''Content-Type'', js ''application/json'')],
            body = [(''url'', JString (js ''https://example.com/?ref=youtu.be'')),
                    (''title'', JUndefined)] \<rparr>"
    using t by (simp add: youtube_request_def trim_def)
  note w = validateYouTubeUrl_substring [where hs = "[]" and res = NetworkFailure
      and u = "js ''https://example.com/?ref=youtu.be''"
      and st = "\<lparr>url = [], title = [], isDownloading = False, dl_error = None, success = False\<rparr>"]
  from w have c: "validateYouTubeUrl (js ''https://example.com/?ref=youtu.be'')"
    by blast
  from w have d: "fetches (effects (YouTube_handleSubmit [] NetworkFailure
        (\<lparr>url = [], title = [], isDownloading = False, dl_error = None, success = False\<rparr>
         \<lparr>url := js ''https://example.com/?ref=youtu.be''\<rparr>)))
      = [youtube_request []
        (\<lparr>url = [], title = [], isDownloading = False, dl_error = None, success = False\<rparr>
         \<lparr>url := js ''https://example.com/?ref=youtu.be''\<rparr>)]"
    by blast
  from c d q show ?thesis
    by (simp only: simp_thms)
qed

text \<open>The two provider names are different strings.\<close>

lemma provider_names_differ: "js ''ollama'' \<noteq> js ''openai''"
  by (simp add: js_def)

text \<open>
  C6. Every save issues one request whose payload has \<open>is_active\<close> set to true, whatever
  \<open>is_active\<close> was in the configuration held before. The payload has the key \<open>base_url\<close>
  exactly when the provider is \<open>ollama\<close> (the local server), then with the base-URL field
  as its value, and the key \<open>api_key\<close> exactly when the provider is \<open>openai\<close> (the hosted
  API), then with the key field as its value. It has no key besides \<open>provider\<close>,
  \<open>is_active\<close> and these two.
\<close>

theorem handleSave_payload:
  "fetches (effects (handleSave hs res st)) = [save_request hs st]
   \<and> map_of (body (save_request hs st)) ''is_active'' = Some (JBool True)
   \<and> (map_of (body (save_request hs st)) ''base_url'' \<noteq> None \<longleftrightarrow> provider (config st) = js ''ollama'')
   \<and> (map_of (body (save_request hs st)) ''api_key'' \<noteq> None \<longleftrightarrow> provider (config st) = js ''openai'')
   \<and> (provider (config st) = js ''ollama''
        \<longrightarrow> map_of (body (save_request hs st)) ''base_url'' = Some (JString (baseUrl st)))
   \<and> (provider (config st) = js ''openai''
        \<longrightarrow> map_of (body (save_request hs st)) ''api_key'' = Some (JString (apiKey st)))
   \<and> set (map fst (body (save_request hs st)))
        \<subseteq> {''provider'', ''is_active'', ''base_url'', ''api_key''}"
proof -
  have a: "fetches (effects (handleSave hs res st)) = [save_request hs st]"
    by (simp add: handleSave_def Let_def split: fetch_result.split response_body.split)
  have b: "map_of (body (save_request hs st)) ''is_active'' = Some (JBool True)"
    by (simp add: save_request_def save_payload_def)
  have c: "map_of (body (save_request hs st)) ''base_url'' \<noteq> None \<longleftrightarrow> provider (config st) = js ''ollama''"
    by (simp add: save_request_def save_payload_def)
  have d: "map_of (body (save_request hs st)) ''api_key'' \<noteq> None \<longleftrightarrow> provider (config st) = js ''openai''"
    by (simp add: save_request_def save_payload_def)
  have e: "provider (config st) = js ''ollama''
        \<longrightarrow> map_of (body (save_request hs st)) ''base_url'' = Some (JString (baseUrl st))"
    by (simp add: save_request_def save_payload_def)
  have f: "provider (config st) = js ''openai''
        \<longrightarrow> map_of (body (save_request hs st)) ''api_key'' = Some (JString (apiKey st))"
    using provider_names_differ by (simp add: save_request_def save_payload_def)
  have g: "set (map fst (body (save_request hs st)))
        \<subseteq> {''provider'', ''is_active'', ''base_url'', ''api_key''}"
    by (auto simp: save_request_def save_payload_def)
  from a b c d e f g show ?thesis by blast
qed

theorem handleSave_payload_witness:
  "map_of (body (save_request []
      \<lparr>config = \<lparr>config_id = Some 1, provider = js ''openai'', base_url = None,
                 has_api_key = Some True, is_active = False, created_at = None, updated_at = None\<rparr>,
        baseUrl = [], apiKey = js ''sk-1'', llm_loading = False, saving = False, message = None\<rparr>))
      ''api_key'' = Some (JString (js ''sk-1''))
   \<and> map_of (body (save_request []
      \<lparr>config = \<lparr>config_id = Some 1, provider = js ''openai'', base_url = None,
                 has_api_key = Some True, is_active = False, created_at = None, updated_at = None\<rparr>,
        baseUrl = [], apiKey = js ''sk-1'', llm_loading = False, saving = False, message = None\<rparr>))
      ''is_active'' = Some (JBool True)
   \<and> map_of (body (save_request []
      \<lparr>config = \<lparr>config_id = Some 1, provider = js ''openai'', base_url = None,
                 has_api_key = Some True, is_active = False, created_at = None, updated_at = None\<rparr>,
        baseUrl = [], apiKey = js ''sk-1'', llm_loading = False, saving = False, message = None\<rparr>))
      ''base_url'' = None
   \<and> map_of (body (save_request []
      \<lparr>config = \<lparr>config_id = None, provider = js ''ollama'', base_url = None,
                 has_api_key = None, is_active = False, created_at = None, updated_at = None\<rparr>,
        baseUrl = js ''http://localhost:11434'', apiKey = [], llm_loading = False, saving = False,
        message = None\<rparr>))
      ''base_url'' = Some (JString (js ''http://localhost:11434''))"
proof -
  let ?st = "\<lparr>config = \<lparr>config_id = Some 1, provider = js ''openai'', base_url = None,
                 has_api_key = Some True, is_active = False, created_at = None, updated_at = None\<rparr>,
        baseUrl = [], apiKey = js ''sk-1'', llm_loading = False, saving = False, message = None\<rparr>"
  note w = handleSave_payload [where hs = "[]" and res = NetworkFailure and st = ?st]
  have p: "provider (config ?st) = js ''openai''" by simp
  have q: "provider (config ?st) \<noteq> js ''ollama''" using provider_names_differ by simp
  from w p have a: "map_of (body (save_request [] ?st)) ''api_key'' = Some (JString (js ''sk-1''))"
    by simp
  from w have b: "map_of (body (save_request [] ?st)) ''is_active'' = Some (JBool True)"
    by blast
  from w q have c: "map_of (body (save_request [] ?st)) ''base_url'' = None"
    by blast
  let ?lo = "\<lparr>config = \<lparr>config_id = None, provider = js ''ollama'', base_url = None,
                 has_api_key = None, is_active = False, created_at = None, updated_at = None\<rparr>,
        baseUrl = js ''http://localhost:11434'', apiKey = [], llm_loading = False, saving = False,
        message = None\<rparr>"
  have "provider (config ?lo) = js ''ollama''" by simp
  with handleSave_payload [where hs = "[]" and res = NetworkFailure and st = ?lo]
  have d: "map_of (body (save_request [] ?lo)) ''base_url''
             = Some (JString (js ''http://localhost:11434''))"
    by simp
  from a b c d show ?thesis by (simp only: simp_thms)
qed

text \<open>
  A field that holds a single space is not empty, yet \<open>isFormValid\<close> trims it first: with
  the provider \<open>openai\<close>, no key confirmed by the server and a key field of one space the
  form is not valid, and likewise with the provider \<open>ollama\<close> and a base URL of one space.
\<close>

theorem isFormValid_blank_key_counterexample:
  "apiKey \<lparr>config = \<lparr>config_id = None, provider = js ''openai'', base_url = None,
                 has_api_key = None, is_active = False, created_at = None, updated_at = None\<rparr>,
        baseUrl = [], apiKey = js '' '', llm_loading = False, saving = False, message = None\<rparr> \<noteq> []
   \<and> \<not> isFormValid \<lparr>config = \<lparr>config_id = None, provider = js ''openai'', base_url = None,
                 has_api_key = None, is_active = False, created_at = None, updated_at = None\<rparr>,
        baseUrl = [], apiKey = js '' '', llm_loading = False, saving = False, message = None\<rparr>
   \<and> baseUrl \<lparr>config = \<lparr>config_id = None, provider = js ''ollama'', base_url = Some (js '' ''),
                 has_api_key = None, is_active = False, created_at = None, updated_at = None\<rparr>,
        baseUrl = js '' '', apiKey = [], llm_loading = False, saving = False, message = None\<rparr> \<noteq> []
   \<and> \<not> isFormValid \<lparr>config = \<lparr>config_id = None, provider = js ''ollama'', base_url = Some (js '' ''),
                 has_api_key = None, is_active = False, created_at = None, updated_at = None\<rparr>,
        baseUrl = js '' '', apiKey = [], llm_loading = False, saving = False, message = None\<rparr>"
proof -
  have s: "isWhiteSpace 0x20" by (simp add: isWhiteSpace_def)
  have j: "js '' '' = [0x20]" by (simp add: js_def)
  have t: "trim (js '' '') = []" using s by (simp add: trim_def j)
  show ?thesis using t provider_names_differ
    by (simp add: isFormValid_def) (simp add: j)
qed

text \<open>
  C7, as the code has it. For the provider \<open>ollama\<close> the form is valid exactly when the
  base-URL field is not blank (not empty after trimming white space); for the provider
  \<open>openai\<close> exactly when the key field is not blank or the server has confirmed an
  existing key. In particular \<open>ollama\<close> with an empty base URL leaves the save button
  disabled, and \<open>openai\<close> with \<open>has_api_key = true\<close> and an empty key field makes the form
  valid, so that the button is enabled unless a save is in flight.
\<close>

theorem isFormValid_rule:
  "(provider (config st) = js ''ollama'' \<longrightarrow> (isFormValid st \<longleftrightarrow> trim (baseUrl st) \<noteq> []))
   \<and> (provider (config st) = js ''openai''
        \<longrightarrow> (isFormValid st \<longleftrightarrow> trim (apiKey st) \<noteq> [] \<or> has_api_key (config st) = Some True))
   \<and> (provider (config st) = js ''ollama'' \<and> baseUrl st = [] \<longrightarrow> \<not> isFormValid st \<and> saveDisabled st)
   \<and> (provider (config st) = js ''openai'' \<and> has_api_key (config st) = Some True \<and> apiKey st = []
        \<longrightarrow> isFormValid st \<and> (\<not> saving st \<longrightarrow> \<not> saveDisabled st))"
  using provider_names_differ
  by (auto simp: isFormValid_def saveDisabled_def trim_def)

theorem isFormValid_rule_witness:
  "saveDisabled \<lparr>config = \<lparr>config_id = None, provider = js ''ollama'', base_url = None,
                 has_api_key = None, is_active = False, created_at = None, updated_at = None\<rparr>,
        baseUrl = [], apiKey = [], llm_loading = False, saving = False, message = None\<rparr>
   \<and> \<not> saveDisabled \<lparr>config = \<lparr>config_id = None, provider = js ''openai'', base_url = None,
                 has_api_key = Some True, is_active = False, created_at = None, updated_at = None\<rparr>,
        baseUrl = [], apiKey = [], llm_loading = False, saving = False, message = None\<rparr>"
proof -
  let ?a = "\<lparr>config = \<lparr>config_id = None, provider = js ''ollama'', base_url = None,
                 has_api_key = None, is_active = False, created_at = None, updated_at = None\<rparr>,
        baseUrl = [], apiKey = [], llm_loading = False, saving = False, message = None\<rparr>"
  let ?b = "\<lparr>config = \<lparr>config_id = None, provider = js ''openai'', base_url = None,
                 has_api_key = Some True, is_active = False, created_at = None, updated_at = None\<rparr>,
        baseUrl = [], apiKey = [], llm_loading = False, saving = False, message = None\<rparr>"
  have a: "saveDisabled ?a"
    using isFormValid_rule [where st = ?a] by simp
  have b: "\<not> saveDisabled ?b"
    using isFormValid_rule [where st = ?b] by simp
  from a b show ?thesis by (simp only: simp_thms)
qed

text \<open>
  C8. A session starts in the loading state. When its initialization check fails, the
  session is initialized all the same and registration is taken not to be required: the
  gate no longer shows the loading screen, and it shows the login screen whenever the
  session is not authenticated, as it is at application start.
\<close>

theorem initialization_failure_settles:
  "ProtectedRoute (useAuth startSession) ch = LoadingScreen
   \<and> ProtectedRoute (useAuth (initialize CheckFailed startSession)) ch = LoginScreen
   \<and> ProtectedRoute (useAuth (initialize CheckFailed s)) ch \<noteq> LoadingScreen
   \<and> \<not> requiresRegistration (useAuth (initialize CheckFailed s))
   \<and> (\<not> isAuthenticated (useAuth s)
        \<longrightarrow> ProtectedRoute (useAuth (initialize CheckFailed s)) ch = LoginScreen)"
  by (simp add: ProtectedRoute_def useAuth_def initialize_def startSession_def)

theorem initialization_failure_settles_witness:
  "ProtectedRoute (useAuth (initialize CheckFailed
      \<lparr>session_token = Some [], session_isInitialized = False, session_requiresRegistration = True\<rparr>)) ()
     = LoginScreen"
proof -
  let ?s = "\<lparr>session_token = Some [], session_isInitialized = False, session_requiresRegistration = True\<rparr>"
  have h: "\<not> isAuthenticated (useAuth ?s)"
    by (simp add: useAuth_def)
  from initialization_failure_settles [where ch = "()" and s = ?s] h show ?thesis
    by blast
qed

end
